theory Spec2Isabelle
  imports Main
begin

section \<open>JavaScript values\<close>

text \<open>
  The values that flow through the validation engine, the dispatcher and the error
  pipeline. Numbers are the safe integers; property order of an object is insertion order,
  so a plain object is the association list of its own properties (keys that are array
  indices, which an object lists first, are left where they were inserted). \<open>JFun n\<close> is the built-in
  function named \<open>n\<close> and \<open>JProto c\<close> the built-in prototype object of \<open>c\<close>
  (\<open>Object.prototype\<close> is \<open>JProto ''Object''\<close>): they are what reading an inherited member
  of a value yields.
\<close>

datatype jsval =
    JUndefined
  | JNull
  | JBool bool
  | JNum int
  | JStr string
  | JArr "jsval list"
  | JObj "(string \<times> jsval) list"
  | JFun string
  | JProto string

fun truthy :: "jsval \<Rightarrow> bool" where
  "truthy JUndefined = False"
| "truthy JNull = False"
| "truthy (JBool b) = b"
| "truthy (JNum n) = (n \<noteq> 0)"
| "truthy (JStr s) = (s \<noteq> [])"
| "truthy (JArr xs) = True"
| "truthy (JObj kvs) = True"
| "truthy (JFun n) = True"
| "truthy (JProto c) = True"

fun show_nat :: "nat \<Rightarrow> string" where
  "show_nat n =
     (if n < 10 then [''0123456789'' ! n]
      else show_nat (n div 10) @ [''0123456789'' ! (n mod 10)])"

declare show_nat.simps [simp del]

definition show_int :: "int \<Rightarrow> string" where
  "show_int i = (if i < 0 then CHR ''-'' # show_nat (nat (- i)) else show_nat (nat i))"

fun join_comma :: "string list \<Rightarrow> string" where
  "join_comma [] = []"
| "join_comma [s] = s"
| "join_comma (s # t # ss) = s @ '','' @ join_comma (t # ss)"

text \<open>\<open>String(v)\<close>. An array joins its elements with commas, \<open>null\<close> and
  \<open>undefined\<close> elements printing as the empty string; \<open>Array.prototype\<close> is an empty array
  and \<open>String.prototype\<close>, \<open>Number.prototype\<close> and \<open>Boolean.prototype\<close> wrap \<open>''\<close>, \<open>0\<close> and
  \<open>false\<close>.\<close>

fun js_String :: "jsval \<Rightarrow> string" where
  "js_String JUndefined = ''undefined''"
| "js_String JNull = ''null''"
| "js_String (JBool b) = (if b then ''true'' else ''false'')"
| "js_String (JNum n) = show_int n"
| "js_String (JStr s) = s"
| "js_String (JArr xs) =
     join_comma (map (\<lambda>x. if x = JUndefined \<or> x = JNull then [] else js_String x) xs)"
| "js_String (JObj kvs) = ''[object Object]''"
| "js_String (JFun n) = ''function '' @ n @ ''() { [native code] }''"
| "js_String (JProto c) =
     (if c = ''Object'' then ''[object Object]''
      else if c = ''Number'' then ''0''
      else if c = ''Boolean'' then ''false''
      else if c = ''Function'' then ''function () { [native code] }''
      else [])"

subsection \<open>Properties, own and inherited\<close>

text \<open>The members of the built-in prototype objects with a string key. \<open>__proto__\<close>, an
  accessor of \<open>Object.prototype\<close>, is treated apart.\<close>

definition builtin_methods :: "string list \<Rightarrow> (string \<times> jsval) list" where
  "builtin_methods names = map (\<lambda>n. (n, JFun n)) names"

definition Object_prototype :: "(string \<times> jsval) list" where
  "Object_prototype =
     (''constructor'', JFun ''Object'') #
     builtin_methods [''__defineGetter__'', ''__defineSetter__'', ''hasOwnProperty'',
       ''__lookupGetter__'', ''__lookupSetter__'', ''isPrototypeOf'', ''propertyIsEnumerable'',
       ''toString'', ''valueOf'', ''toLocaleString'']"

definition Array_prototype :: "(string \<times> jsval) list" where
  "Array_prototype =
     (''length'', JNum 0) # (''constructor'', JFun ''Array'') #
     builtin_methods [''at'', ''concat'', ''copyWithin'', ''fill'', ''find'', ''findIndex'',
       ''findLast'', ''findLastIndex'', ''lastIndexOf'', ''pop'', ''push'', ''reverse'', ''shift'',
       ''unshift'', ''slice'', ''sort'', ''splice'', ''includes'', ''indexOf'', ''join'', ''keys'',
       ''entries'', ''values'', ''forEach'', ''filter'', ''flat'', ''flatMap'', ''map'', ''every'',
       ''some'', ''reduce'', ''reduceRight'', ''toLocaleString'', ''toString'', ''toReversed'',
       ''toSorted'', ''toSpliced'', ''with'']"

definition String_prototype :: "(string \<times> jsval) list" where
  "String_prototype =
     (''length'', JNum 0) # (''constructor'', JFun ''String'') #
     builtin_methods [''anchor'', ''at'', ''big'', ''blink'', ''bold'', ''charAt'', ''charCodeAt'',
       ''codePointAt'', ''concat'', ''endsWith'', ''fontcolor'', ''fontsize'', ''fixed'',
       ''includes'', ''indexOf'', ''isWellFormed'', ''italics'', ''lastIndexOf'', ''link'',
       ''localeCompare'', ''match'', ''matchAll'', ''normalize'', ''padEnd'', ''padStart'',
       ''repeat'', ''replace'', ''replaceAll'', ''search'', ''slice'', ''small'', ''split'',
       ''strike'', ''sub'', ''substr'', ''substring'', ''sup'', ''startsWith'', ''toString'',
       ''toWellFormed'', ''trim'', ''trimStart''] @
     [(''trimLeft'', JFun ''trimStart''), (''trimEnd'', JFun ''trimEnd''),
      (''trimRight'', JFun ''trimEnd'')] @
     builtin_methods [''toLocaleLowerCase'', ''toLocaleUpperCase'', ''toLowerCase'',
       ''toUpperCase'', ''valueOf'']"

definition Number_prototype :: "(string \<times> jsval) list" where
  "Number_prototype =
     (''constructor'', JFun ''Number'') #
     builtin_methods [''toExponential'', ''toFixed'', ''toPrecision'', ''toString'', ''valueOf'',
       ''toLocaleString'']"

definition Boolean_prototype :: "(string \<times> jsval) list" where
  "Boolean_prototype =
     (''constructor'', JFun ''Boolean'') # builtin_methods [''toString'', ''valueOf'']"

text \<open>Of \<open>Function.prototype\<close> the accessors \<open>arguments\<close> and \<open>caller\<close> are left out.\<close>

definition Function_prototype :: "(string \<times> jsval) list" where
  "Function_prototype =
     (''length'', JNum 0) # (''name'', JStr []) # (''constructor'', JFun ''Function'') #
     builtin_methods [''apply'', ''bind'', ''call'', ''toString'']"

definition prototype_members :: "string \<Rightarrow> (string \<times> jsval) list" where
  "prototype_members c =
     (if c = ''Object'' then Object_prototype
      else if c = ''Array'' then Array_prototype
      else if c = ''String'' then String_prototype
      else if c = ''Number'' then Number_prototype
      else if c = ''Boolean'' then Boolean_prototype
      else if c = ''Function'' then Function_prototype
      else [])"

text \<open>The prototype chain of a value, nearest first. A plain object, and with it a request
  body or query, has \<open>Object.prototype\<close>.\<close>

fun prototype_chain :: "jsval \<Rightarrow> string list" where
  "prototype_chain JUndefined = []"
| "prototype_chain JNull = []"
| "prototype_chain (JBool b) = [''Boolean'', ''Object'']"
| "prototype_chain (JNum n) = [''Number'', ''Object'']"
| "prototype_chain (JStr s) = [''String'', ''Object'']"
| "prototype_chain (JArr xs) = [''Array'', ''Object'']"
| "prototype_chain (JObj kvs) = [''Object'']"
| "prototype_chain (JFun n) = [''Function'', ''Object'']"
| "prototype_chain (JProto c) = (if c = ''Object'' then [] else [''Object''])"

text \<open>Own properties: the entries of an object, \<open>length\<close> and the indices of an array or a
  string, the members of a prototype object; of a function only its \<open>name\<close> is kept.\<close>

fun index_named :: "string \<Rightarrow> nat \<Rightarrow> nat option" where
  "index_named f 0 = None"
| "index_named f (Suc n) =
     (case index_named f n of Some i \<Rightarrow> Some i
      | None \<Rightarrow> if show_nat n = f then Some n else None)"

fun js_own :: "jsval \<Rightarrow> string \<Rightarrow> jsval option" where
  "js_own (JObj kvs) f = map_of kvs f"
| "js_own (JArr xs) f =
     (if f = ''length'' then Some (JNum (int (length xs)))
      else map_option (\<lambda>i. xs ! i) (index_named f (length xs)))"
| "js_own (JStr s) f =
     (if f = ''length'' then Some (JNum (int (length s)))
      else map_option (\<lambda>i. JStr [s ! i]) (index_named f (length s)))"
| "js_own (JFun n) f = (if f = ''name'' then Some (JStr n) else None)"
| "js_own (JProto c) f = map_of (prototype_members c) f"
| "js_own v f = None"

text \<open>
  What \<open>v[f]\<close> and \<open>f in v\<close> find on a value that is neither \<open>null\<close> nor \<open>undefined\<close>: an own
  property, else the first member of that name along the prototype chain; \<open>None\<close> when there
  is none. \<open>__proto__\<close>, when not an own property, reads as the value's prototype.
\<close>

definition js_lookup :: "jsval \<Rightarrow> string \<Rightarrow> jsval option" where
  "js_lookup v f =
     (case js_own v f of
        Some x \<Rightarrow> Some x
      | None \<Rightarrow>
          if v = JUndefined \<or> v = JNull then None
          else if f = ''__proto__''
          then (case prototype_chain v of c # cs \<Rightarrow> Some (JProto c) | [] \<Rightarrow> Some JNull)
          else map_of (concat (map prototype_members (prototype_chain v))) f)"

text \<open>Defining the own property \<open>k\<close> of an object: an existing key keeps its place, a new
  key goes last.\<close>

fun obj_set :: "string \<Rightarrow> 'v \<Rightarrow> (string \<times> 'v) list \<Rightarrow> (string \<times> 'v) list" where
  "obj_set k v [] = [(k, v)]"
| "obj_set k v ((k', v') # kvs) =
     (if k = k' then (k, v) # kvs else (k', v') # obj_set k v kvs)"

text \<open>\<open>o[k] = v\<close> on a plain object whose own properties are given: assigning to \<open>__proto__\<close>
  goes to the accessor of \<open>Object.prototype\<close> and makes no own property.\<close>

definition js_assign :: "string \<Rightarrow> 'v \<Rightarrow> (string \<times> 'v) list \<Rightarrow> (string \<times> 'v) list" where
  "js_assign k v kvs = (if k = ''__proto__'' then kvs else obj_set k v kvs)"

text \<open>The object literal \<open>{...a, ...b}\<close>, which defines own properties whatever their
  names.\<close>

definition spread :: "(string \<times> 'v) list \<Rightarrow> (string \<times> 'v) list \<Rightarrow> (string \<times> 'v) list" where
  "spread a b = foldl (\<lambda>acc (k, v). obj_set k v acc) (foldl (\<lambda>acc (k, v). obj_set k v acc) [] a) b"

section \<open>Validation results (util/validation.ts)\<close>

record validation_message =
  code :: string
  message :: string
  field :: "string option"

record validation =
  messages :: "validation_message list"

definition ERR_FIELD :: string where
  "ERR_FIELD = ''ERR_FIELD''"

definition ERR_UNKNOWN :: string where
  "ERR_UNKNOWN = ''ERR_UNKNOWN''"

definition new_Validation :: validation where
  "new_Validation = \<lparr>messages = []\<rparr>"

text \<open>\<open>Validation.add(...args)\<close> on string arguments: one argument is a bare message, two are
  code and message, three are field, code and message; any other arity adds nothing.\<close>

fun validation_add :: "string list \<Rightarrow> validation \<Rightarrow> validation" where
  "validation_add [m] v =
     v\<lparr>messages := messages v @ [\<lparr>code = ERR_UNKNOWN, message = m, field = None\<rparr>]\<rparr>"
| "validation_add [c, m] v =
     (let c' = (if c \<noteq> [] then c else ERR_UNKNOWN)
      in if c' \<noteq> [] \<and> m \<noteq> []
         then v\<lparr>messages := messages v @ [\<lparr>code = c', message = m, field = None\<rparr>]\<rparr>
         else v)"
| "validation_add [f, c, m] v =
     (let c' = (if c \<noteq> [] then c else ERR_UNKNOWN)
      in if f \<noteq> [] \<and> c' \<noteq> [] \<and> m \<noteq> []
         then v\<lparr>messages := messages v @ [\<lparr>code = c', message = m, field = Some f\<rparr>]\<rparr>
         else v)"
| "validation_add args v = v"

definition isValid :: "validation \<Rightarrow> bool" where
  "isValid v = (length (messages v) = 0)"

text \<open>\<open>getFormatted\<close>: field name to message, messages without a field under \<open>_error\<close>.\<close>

definition getFormatted :: "validation \<Rightarrow> (string \<times> string) list" where
  "getFormatted v =
     foldl (\<lambda>formatted msg.
              case field msg of
                Some f \<Rightarrow> if f \<noteq> [] then js_assign f (message msg) formatted
                          else js_assign ''_error'' (message msg) formatted
              | None \<Rightarrow> js_assign ''_error'' (message msg) formatted)
           [] (messages v)"

section \<open>Thrown values\<close>

text \<open>What a \<open>throw\<close> can carry: an instance of \<open>Validation\<close>, an instance of
  \<open>AppException\<close> (message and status code), a \<open>TypeError\<close> raised by the language itself,
  or any other value.\<close>

datatype thrown =
    EValidation validation
  | EAppException string nat
  | ETypeError string
  | EOther jsval

text \<open>\<open>input[field]\<close>: reading a property of \<open>null\<close> or \<open>undefined\<close> raises.\<close>

definition cannot_read :: "jsval \<Rightarrow> string \<Rightarrow> string" where
  "cannot_read v f =
     ''Cannot read properties of '' @ js_String v @ '' (reading '' @ [CHR 0x27] @ f @ [CHR 0x27]
       @ '')''"

definition js_get :: "jsval \<Rightarrow> string \<Rightarrow> thrown + jsval" where
  "js_get v f =
     (if v = JUndefined \<or> v = JNull then Inl (ETypeError (cannot_read v f))
      else Inr (case js_lookup v f of Some x \<Rightarrow> x | None \<Rightarrow> JUndefined))"

section \<open>Rules (util/helper.ts, util/rules-common.ts)\<close>

text \<open>
  An entry of a rule array. \<open>is_function\<close> is \<open>typeof rule === 'function'\<close>; \<open>run\<close> is the
  call \<open>rule(value, input)\<close>, returning a message or \<open>null\<close>; the remaining fields are the
  properties attached to the function object (\<open>False\<close> where the property is not set).
\<close>

record rule =
  is_function :: bool
  run :: "jsval \<Rightarrow> jsval \<Rightarrow> string option"
  needsContext :: bool
  isOptional :: bool
  isDefault :: bool
  defaultValue :: jsval

definition to_string :: "jsval \<Rightarrow> string option \<Rightarrow> string option" where
  "to_string v dflt =
     (if v = JUndefined \<or> v = JNull \<or> v = JStr [] then dflt else Some (js_String v))"

text \<open>Truthiness of a \<open>string | null\<close>.\<close>

fun str_truthy :: "string option \<Rightarrow> bool" where
  "str_truthy None = False"
| "str_truthy (Some s) = (s \<noteq> [])"

definition plain_rule :: "(jsval \<Rightarrow> jsval \<Rightarrow> string option) \<Rightarrow> rule" where
  "plain_rule f = \<lparr>is_function = True, run = f, needsContext = False, isOptional = False,
                   isDefault = False, defaultValue = JUndefined\<rparr>"

definition required_default_msg :: string where
  "required_default_msg = ''Campo obrigat'' @ [CHR 0xC3, CHR 0xB3] @ ''rio''"

definition required :: "string \<Rightarrow> rule" where
  "required msg =
     plain_rule (\<lambda>v input. if \<not> str_truthy (to_string v (Some [])) then Some msg else None)"



text \<open>
  The white space and line terminators that \<open>trim\<close> removes, a string being the bytes of its
  UTF-8 encoding: \<open>white_space_length s\<close> is the number of bytes of the white-space character
  \<open>s\<close> starts with, 0 when it starts with none. \<open>blank s\<close> is \<open>s.trim() === ''\<close>.
\<close>

definition is_space :: "char \<Rightarrow> bool" where
  "is_space c = (c \<in> set [CHR '' '', CHR 0x09, CHR 0x0A, CHR 0x0B, CHR 0x0C, CHR 0x0D])"

fun white_space_length :: "string \<Rightarrow> nat" where
  "white_space_length [] = 0"
| "white_space_length [a] = (if is_space a then 1 else 0)"
| "white_space_length [a, b] =
     (if is_space a then 1 else if a = CHR 0xC2 \<and> b = CHR 0xA0 then 2 else 0)"
| "white_space_length (a # b # c # s) =
     (if is_space a then 1
      else if a = CHR 0xC2 \<and> b = CHR 0xA0 then 2
      else if a = CHR 0xE1 \<and> b = CHR 0x9A \<and> c = CHR 0x80 then 3
      else if a = CHR 0xE2 \<and> b = CHR 0x80
                \<and> c \<in> set [CHR 0x80, CHR 0x81, CHR 0x82, CHR 0x83, CHR 0x84, CHR 0x85, CHR 0x86,
                           CHR 0x87, CHR 0x88, CHR 0x89, CHR 0x8A, CHR 0xA8, CHR 0xA9, CHR 0xAF]
      then 3
      else if a = CHR 0xE2 \<and> b = CHR 0x81 \<and> c = CHR 0x9F then 3
      else if a = CHR 0xE3 \<and> b = CHR 0x80 \<and> c = CHR 0x80 then 3
      else if a = CHR 0xEF \<and> b = CHR 0xBB \<and> c = CHR 0xBF then 3
      else 0)"

function blank :: "string \<Rightarrow> bool" where
  "blank s =
     (if s = [] then True
      else if white_space_length s = 0 then False
      else blank (drop (white_space_length s) s))"
  by pat_completeness auto
termination
  by (relation "measure length") auto

declare blank.simps [simp del]

definition call_rule :: "rule \<Rightarrow> jsval \<Rightarrow> jsval \<Rightarrow> string option" where
  "call_rule r v input = (if needsContext r then run r v input else run r v JUndefined)"

text \<open>The loop of \<open>optionalBut\<close>: returns the first truthy result.\<close>

fun first_error :: "rule list \<Rightarrow> jsval \<Rightarrow> jsval \<Rightarrow> string option" where
  "first_error [] v input = None"
| "first_error (r # rs) v input =
     (let error = call_rule r v input
      in if str_truthy error then error else first_error rs v input)"

definition optionalBut :: "rule list \<Rightarrow> rule" where
  "optionalBut rules =
     plain_rule (\<lambda>v input.
       let isEmpty = (v = JUndefined \<or> v = JNull \<or> v = JStr []
                       \<or> (case v of JStr s \<Rightarrow> blank s | _ \<Rightarrow> False))
       in if isEmpty then None else first_error rules v input)"

definition array_default_msg :: string where
  "array_default_msg = ''Array obrigat'' @ [CHR 0xC3, CHR 0xB3] @ ''rio''"

definition array :: "string \<Rightarrow> rule" where
  "array msg =
     plain_rule (\<lambda>v input.
       if (case v of JArr xs \<Rightarrow> length xs = 0 | _ \<Rightarrow> True) then Some msg else None)"

section \<open>Validating and sanitising (util/validation-helper.ts)\<close>

datatype field_rules = Single rule | Many "rule list"

type_synonym rule_map = "(string \<times> field_rules) list"

fun ruleArray :: "field_rules \<Rightarrow> rule list" where
  "ruleArray (Many rs) = rs"
| "ruleArray (Single r) = [r]"

text \<open>
  The body of the inner \<open>forEach\<close> of \<open>validate\<close>. The state is the \<open>Validation\<close> under
  construction together with a trace of the rule calls made (field name and returned value),
  which the source does not keep and which only records that a call took place.
\<close>

definition validate_rule ::
  "jsval \<Rightarrow> string \<Rightarrow> jsval \<Rightarrow> validation \<times> (string \<times> string option) list \<Rightarrow> rule
     \<Rightarrow> validation \<times> (string \<times> string option) list" where
  "validate_rule input f v st rule =
     (if \<not> is_function rule then st
      else let error = call_rule rule v input
           in ((case error of
                  Some m \<Rightarrow> if m \<noteq> [] then validation_add [m] (fst st) else fst st
                | None \<Rightarrow> fst st),
               snd st @ [(f, error)]))"

fun validate_fields ::
  "jsval \<Rightarrow> rule_map \<Rightarrow> validation \<times> (string \<times> string option) list
     \<Rightarrow> thrown + validation \<times> (string \<times> string option) list" where
  "validate_fields input [] st = Inr st"
| "validate_fields input ((f, fieldRules) # rest) st =
     (case js_get input f of
        Inl e \<Rightarrow> Inl e
      | Inr v \<Rightarrow> validate_fields input rest (foldl (validate_rule input f v) st (ruleArray fieldRules)))"

definition validate_traced ::
  "jsval \<Rightarrow> rule_map \<Rightarrow> thrown + validation \<times> (string \<times> string option) list" where
  "validate_traced input rules = validate_fields input rules (new_Validation, [])"

definition validate :: "jsval \<Rightarrow> rule_map \<Rightarrow> thrown + validation" where
  "validate input rules =
     (case validate_traced input rules of Inl e \<Rightarrow> Inl e | Inr (v, calls) \<Rightarrow> Inr v)"




definition check :: "rule_map \<Rightarrow> jsval \<Rightarrow> thrown + unit" where
  "check rules input =
     (case validate input rules of
        Inl e \<Rightarrow> Inl e
      | Inr v \<Rightarrow> if \<not> isValid v then Inl (EValidation v) else Inr ())"


subsection \<open>What a run of \<open>validate\<close> amounts to\<close>

text \<open>The calls made for one field: every function-valued entry of its rule array, in order.\<close>

definition rule_calls :: "jsval \<Rightarrow> string \<Rightarrow> jsval \<Rightarrow> rule list \<Rightarrow> (string \<times> string option) list" where
  "rule_calls input f v rs = map (\<lambda>r. (f, call_rule r v input)) (filter is_function rs)"

text \<open>The messages those calls leave: one per truthy result, added by \<open>add(error)\<close>.\<close>

definition call_messages :: "(string \<times> string option) list \<Rightarrow> validation_message list" where
  "call_messages calls =
     concat (map (\<lambda>(f, e). case e of
                     Some m \<Rightarrow> if m \<noteq> [] then [\<lparr>code = ERR_UNKNOWN, message = m, field = None\<rparr>] else []
                   | None \<Rightarrow> []) calls)"

text \<open>\<open>input[field]\<close> on an input that is neither \<open>null\<close> nor \<open>undefined\<close>.\<close>

definition prop_or_undefined :: "jsval \<Rightarrow> string \<Rightarrow> jsval" where
  "prop_or_undefined input f = (case js_lookup input f of Some x \<Rightarrow> x | None \<Rightarrow> JUndefined)"

text \<open>All calls of a run, field after field in declaration order.\<close>

definition all_calls :: "jsval \<Rightarrow> rule_map \<Rightarrow> (string \<times> string option) list" where
  "all_calls input rules =
     concat (map (\<lambda>(f, fieldRules). rule_calls input f (prop_or_undefined input f) (ruleArray fieldRules)) rules)"

subsection \<open>What \<open>sanitize\<close> leaves in a field\<close>



section \<open>Schemas (util/validation-helper.ts)\<close>








section \<open>Responses (util/app-response.ts, util/response-builder.ts)\<close>

text \<open>
  The part of the transport's response object the framework touches. \<open>status(c)\<close> records the
  status code, \<open>json(b)\<close> sends the body at the recorded status code and marks the headers
  as sent; a fresh response has status 200. Status codes are taken to be valid ones.
\<close>

record response =
  statusCode :: nat
  headersSent :: bool
  body :: "jsval option"

type_synonym request = jsval

definition new_response :: response where
  "new_response = \<lparr>statusCode = 200, headersSent = False, body = None\<rparr>"

definition res_status :: "nat \<Rightarrow> response \<Rightarrow> response" where
  "res_status c res = res\<lparr>statusCode := c\<rparr>"

definition res_json :: "jsval \<Rightarrow> response \<Rightarrow> response" where
  "res_json b res = res\<lparr>body := Some b, headersSent := True\<rparr>"

text \<open>The envelope \<open>{success, message, data, error}\<close>.\<close>

definition envelope :: "bool \<Rightarrow> jsval \<Rightarrow> jsval \<Rightarrow> jsval \<Rightarrow> jsval" where
  "envelope success msg dat err =
     JObj [(''success'', JBool success), (''message'', msg), (''data'', dat), (''error'', err)]"

definition AppResponse :: "response \<Rightarrow> nat \<Rightarrow> bool \<Rightarrow> jsval \<Rightarrow> jsval \<Rightarrow> jsval \<Rightarrow> response" where
  "AppResponse res status success dat msg err =
     res_json (envelope success msg dat err) (res_status status res)"

text \<open>What a route handler returns: an instance of \<open>ApiResponse\<close> (data, status code and
  optional message) or any other value, \<open>undefined\<close> included.\<close>

datatype hresult =
    ApiResponse jsval nat "string option"
  | Value jsval

definition ok :: "jsval \<Rightarrow> string option \<Rightarrow> hresult" where
  "ok dat msg = ApiResponse dat 200 msg"

definition created :: "jsval \<Rightarrow> string option \<Rightarrow> hresult" where
  "created dat msg = ApiResponse dat 201 msg"

section \<open>The error pipeline (middlewares/error-exception.middleware.ts)\<close>

text \<open>The instances of \<open>ValidationMessage\<close> as the body serialiser sees them.\<close>

definition message_json :: "validation_message \<Rightarrow> jsval" where
  "message_json m =
     JObj [(''code'', JStr (code m)), (''message'', JStr (message m)),
           (''field'', case field m of Some f \<Rightarrow> JStr f | None \<Rightarrow> JNull)]"

definition messages_json :: "validation \<Rightarrow> jsval" where
  "messages_json v = JArr (map message_json (messages v))"

text \<open>
  \<open>error.p\<close> on a thrown value: reading a property of \<open>null\<close> or \<open>undefined\<close> raises a
  \<open>TypeError\<close>. Of an error's \<open>stack\<close> only the first line is kept.
\<close>

fun thrown_get :: "thrown \<Rightarrow> string \<Rightarrow> thrown + jsval" where
  "thrown_get (EValidation v) p = Inr (if p = ''messages'' then messages_json v else JUndefined)"
| "thrown_get (EAppException m c) p =
     Inr (if p = ''message'' then JStr m
          else if p = ''statusCode'' then JNum (int c)
          else if p = ''stack'' then JStr (''Error: '' @ m)
          else JUndefined)"
| "thrown_get (ETypeError m) p =
     Inr (if p = ''message'' then JStr m
          else if p = ''stack'' then JStr (''TypeError: '' @ m)
          else JUndefined)"
| "thrown_get (EOther x) p = js_get x p"

text \<open>\<open>error?.p\<close>.\<close>

definition thrown_get_opt :: "thrown \<Rightarrow> string \<Rightarrow> jsval" where
  "thrown_get_opt e p = (case thrown_get e p of Inr x \<Rightarrow> x | Inl t \<Rightarrow> JUndefined)"

record ErrorHandler =
  canHandle :: "thrown \<Rightarrow> thrown + bool"
  handle :: "thrown \<Rightarrow> request \<Rightarrow> response \<Rightarrow> thrown + response"

text \<open>The registry's private array of handlers, and its methods.\<close>

type_synonym registry = "ErrorHandler list"

definition register :: "ErrorHandler \<Rightarrow> registry \<Rightarrow> registry" where
  "register h reg = reg @ [h]"

definition registerMany :: "ErrorHandler list \<Rightarrow> registry \<Rightarrow> registry" where
  "registerMany hs reg = reg @ hs"

definition clear :: "registry \<Rightarrow> registry" where
  "clear reg = []"

text \<open>\<open>ErrorHandlerRegistry.handle\<close>: the loop over the handlers. A handler that raises ends the
  loop with its exception.\<close>

fun registry_handle :: "registry \<Rightarrow> thrown \<Rightarrow> request \<Rightarrow> response \<Rightarrow> thrown + bool \<times> response" where
  "registry_handle [] error req res = Inr (False, res)"
| "registry_handle (h # hs) error req res =
     (case canHandle h error of
        Inl t \<Rightarrow> Inl t
      | Inr True \<Rightarrow>
          (case handle h error req res of
             Inl t \<Rightarrow> Inl t
           | Inr res' \<Rightarrow> Inr (True, res'))
      | Inr False \<Rightarrow> registry_handle hs error req res)"

definition validation_error_msg :: string where
  "validation_error_msg = ''Erro de valida'' @ [CHR 0xC3, CHR 0xA7, CHR 0xC3, CHR 0xA3] @ ''o''"

definition json_error_msg :: string where
  "json_error_msg = ''Verifique se o JSON est'' @ [CHR 0xC3, CHR 0xA1] @ '' correto''"

definition internal_error_msg :: string where
  "internal_error_msg = ''Erro interno do servidor''"

definition validation_handler :: ErrorHandler where
  "validation_handler =
     \<lparr>canHandle = (\<lambda>error. Inr (case error of EValidation v \<Rightarrow> True | _ \<Rightarrow> False)),
      handle = (\<lambda>error req res.
        case thrown_get error ''messages'' of
          Inl t \<Rightarrow> Inl t
        | Inr ms \<Rightarrow> Inr (AppResponse res 400 False JNull (JStr validation_error_msg) ms))\<rparr>"

text \<open>The handler for \<open>AppException\<close>; it is only ever called on one.\<close>

definition app_exception_handler :: ErrorHandler where
  "app_exception_handler =
     \<lparr>canHandle = (\<lambda>error. Inr (case error of EAppException m c \<Rightarrow> True | _ \<Rightarrow> False)),
      handle = (\<lambda>error req res.
        case error of
          EAppException m c \<Rightarrow> Inr (AppResponse res c False JNull (JStr m) (JStr m))
        | _ \<Rightarrow> Inl (ETypeError ''Invalid status code''))\<rparr>"

definition json_parse_handler :: ErrorHandler where
  "json_parse_handler =
     \<lparr>canHandle = (\<lambda>error.
        case thrown_get error ''type'' of
          Inl t \<Rightarrow> Inl t
        | Inr ty \<Rightarrow> Inr (ty = JStr ''entity.parse.failed'')),
      handle = (\<lambda>error req res.
        case thrown_get error ''message'' of
          Inl t \<Rightarrow> Inl t
        | Inr m \<Rightarrow> Inr (AppResponse res 400 False JNull (JStr json_error_msg) m))\<rparr>"

definition generic_handler :: ErrorHandler where
  "generic_handler =
     \<lparr>canHandle = (\<lambda>error. Inr True),
      handle = (\<lambda>error req res.
        let m = thrown_get_opt error ''message'';
            msg = (if truthy m then m else JStr internal_error_msg)
        in Inr (AppResponse res 500 False JNull (JStr internal_error_msg) msg))\<rparr>"

definition defaultHandlers :: "ErrorHandler list" where
  "defaultHandlers = [validation_handler, app_exception_handler, json_parse_handler, generic_handler]"

text \<open>The configuration object; \<open>None\<close> is a property left out.\<close>

record ErrorMiddlewareConfig =
  useDefaultHandlers :: "bool option"
  customHandlers :: "ErrorHandler list option"
  exposeStackTrace :: "bool option"

text \<open>The middleware \<open>createErrorMiddleware\<close> returns. It reads the registry when an error
  arrives.\<close>

definition error_middleware :: "bool \<Rightarrow> registry \<Rightarrow> thrown \<Rightarrow> request \<Rightarrow> response \<Rightarrow> thrown + response" where
  "error_middleware expose reg err req res =
     (case registry_handle reg err req res of
        Inl t \<Rightarrow> Inl t
      | Inr (handled, res') \<Rightarrow>
          if \<not> handled
          then (let m = thrown_get_opt err ''message'';
                    msg = (if expose \<and> truthy (thrown_get_opt err ''stack'')
                           then thrown_get_opt err ''stack''
                           else if truthy m then m else JStr internal_error_msg)
                in Inr (AppResponse res' 500 False JNull (JStr internal_error_msg) msg))
          else Inr res')"

text \<open>\<open>createErrorMiddleware(config)\<close>: the registrations it makes on the global registry, and
  the \<open>exposeStackTrace\<close> setting the returned middleware closes over.\<close>

definition createErrorMiddleware :: "ErrorMiddlewareConfig \<Rightarrow> registry \<Rightarrow> bool \<times> registry" where
  "createErrorMiddleware config reg =
     (let useDefault = (case useDefaultHandlers config of Some b \<Rightarrow> b | None \<Rightarrow> True);
          custom = (case customHandlers config of Some hs \<Rightarrow> hs | None \<Rightarrow> []);
          expose = (case exposeStackTrace config of Some b \<Rightarrow> b | None \<Rightarrow> False);
          reg1 = (if useDefault then registerMany defaultHandlers reg else reg);
          reg2 = (if length custom > 0 then registerMany custom reg1 else reg1)
      in (expose, reg2))"

section \<open>The dispatcher (util/router-builder.ts)\<close>

text \<open>
  How \<open>await route.handler.call(controller, req, res, next)\<close> ends: with a value, with an
  exception (thrown or a rejection), or never. A handler also leaves the response in some
  state. A handler that calls \<open>next\<close> itself is outside the model.
\<close>

datatype 'a completion = Returned 'a | Threw thrown | Pending

type_synonym route_handler = "request \<Rightarrow> response \<Rightarrow> hresult completion \<times> response"

text \<open>\<open>wrappedHandler\<close>: the response it leaves, and the error it passed to \<open>next\<close> if any.\<close>

definition wrappedHandler :: "route_handler \<Rightarrow> request \<Rightarrow> response \<Rightarrow> response \<times> thrown option" where
  "wrappedHandler handler req res =
     (case handler req res of
        (Threw error, res') \<Rightarrow> (res', Some error)
      | (Pending, res') \<Rightarrow> (res', None)
      | (Returned result, res') \<Rightarrow>
          if headersSent res' then (res', None)
          else if result \<noteq> Value JUndefined then
            (case result of
               ApiResponse dat status msg \<Rightarrow>
                 (res_json
                    (envelope True
                       (case msg of Some m \<Rightarrow> if m \<noteq> [] then JStr m else JNull | None \<Rightarrow> JNull)
                       dat JNull)
                    (res_status status res'),
                  None)
             | Value v \<Rightarrow> (res_json (envelope True JNull v JNull) res', None))
          else (res', None))"

text \<open>
  The transport's part: an error passed to \<open>next\<close> goes to the error middleware installed after
  the routers. A falsy value and the strings \<open>route\<close> and \<open>router\<close> are no error to the
  transport: the request then passes on to the transport's own later handlers, which are not
  part of the framework, and the pipeline below gives the response as the framework's handlers
  left it.
\<close>

fun thrown_truthy :: "thrown \<Rightarrow> bool" where
  "thrown_truthy (EOther x) = (truthy x \<and> x \<noteq> JStr ''route'' \<and> x \<noteq> JStr ''router'')"
| "thrown_truthy e = True"

definition request_pipeline ::
  "bool \<Rightarrow> registry \<Rightarrow> route_handler \<Rightarrow> request \<Rightarrow> response \<Rightarrow> thrown + response" where
  "request_pipeline expose reg handler req res =
     (case wrappedHandler handler req res of
        (res', Some error) \<Rightarrow>
          if thrown_truthy error then error_middleware expose reg error req res' else Inr res'
      | (res', None) \<Rightarrow> Inr res')"

section \<open>Services (util/base-service.ts)\<close>

text \<open>
  An instance of a service class: the three fields of \<open>BaseService\<close> (\<open>svc_context\<close> is its \<open>context\<close>)
  and the subclass's own data. An absent transaction is \<open>undefined\<close>.
\<close>

record 'd service =
  throwOnError :: bool
  transaction :: jsval
  svc_context :: "(string \<times> jsval) list"
  own :: 'd

text \<open>A \<open>ServiceConfig\<close>; \<open>None\<close> and \<open>JUndefined\<close> are properties that are \<open>undefined\<close>.\<close>

record ServiceConfig =
  cfg_throwOnError :: "bool option"
  cfg_transaction :: jsval
  cfg_context :: "(string \<times> jsval) list option"

definition new_service :: "'d \<Rightarrow> 'd service" where
  "new_service d = \<lparr>throwOnError = True, transaction = JUndefined, svc_context = [], own = d\<rparr>"

text \<open>\<open>configure\<close> changes the instance it is called on.\<close>

definition configure :: "ServiceConfig \<Rightarrow> 'd service \<Rightarrow> 'd service" where
  "configure config this =
     (let s1 = (case cfg_throwOnError config of Some b \<Rightarrow> this\<lparr>throwOnError := b\<rparr> | None \<Rightarrow> this);
          s2 = (if cfg_transaction config \<noteq> JUndefined
                then s1\<lparr>transaction := cfg_transaction config\<rparr> else s1)
      in case cfg_context config of
           Some c \<Rightarrow> s2\<lparr>svc_context := spread (svc_context s2) c\<rparr>
         | None \<Rightarrow> s2)"

text \<open>
  How a call of a method ends: with a value, with an exception, or with a promise, which
  resolves, rejects or stays pending. A method runs on a receiver and may change it.
\<close>

datatype settled = Resolved jsval | Rejected thrown | Unsettled

datatype outcome = Returns jsval | Throws thrown | Promise settled

type_synonym 'd service_method = "'d service \<Rightarrow> jsval list \<Rightarrow> outcome \<times> 'd service"

text \<open>A view: the \<open>Proxy\<close> around its target, the clone made by \<open>createProxy\<close>.\<close>

datatype 'd view = Proxy (target: "'d service")

definition createProxy :: "'d service \<Rightarrow> ServiceConfig \<Rightarrow> 'd view" where
  "createProxy this config =
     (let instance = this;
          i1 = (case cfg_throwOnError config of
                  Some b \<Rightarrow> instance\<lparr>throwOnError := b\<rparr> | None \<Rightarrow> instance);
          i2 = (if cfg_transaction config \<noteq> JUndefined
                then i1\<lparr>transaction := cfg_transaction config\<rparr> else i1);
          i3 = (case cfg_context config of
                  Some c \<Rightarrow> i2\<lparr>svc_context := spread (svc_context this) c\<rparr> | None \<Rightarrow> i2)
      in Proxy i3)"

definition silent :: "'d service \<Rightarrow> 'd view" where
  "silent this =
     createProxy this \<lparr>cfg_throwOnError = Some False, cfg_transaction = JUndefined, cfg_context = None\<rparr>"

definition withTransaction :: "jsval \<Rightarrow> 'd service \<Rightarrow> 'd view" where
  "withTransaction t this =
     createProxy this \<lparr>cfg_throwOnError = None, cfg_transaction = t, cfg_context = None\<rparr>"

definition withContext :: "(string \<times> jsval) list \<Rightarrow> 'd service \<Rightarrow> 'd view" where
  "withContext c this =
     createProxy this
       \<lparr>cfg_throwOnError = None, cfg_transaction = JUndefined,
        cfg_context = Some (spread (svc_context this) c)\<rparr>"

text \<open>\<open>prop.startsWith('_')\<close>.\<close>

fun is_internal :: "string \<Rightarrow> bool" where
  "is_internal [] = False"
| "is_internal (c # cs) = (c = CHR ''_'')"

text \<open>
  What the \<open>get\<close> trap returns for a function-valued member \<open>original\<close> named \<open>prop\<close>: the
  member itself when the name is internal, else the wrapper, which runs the member on the target
  and consults the target's \<open>throwOnError\<close> when the call has thrown or the promise has
  rejected.
\<close>

definition intercepted :: "string \<Rightarrow> 'd service_method \<Rightarrow> 'd service_method" where
  "intercepted prop original =
     (if is_internal prop then original
      else (\<lambda>target args.
        case original target args of
          (Throws error, t') \<Rightarrow>
            (if \<not> throwOnError t' then Returns JNull else Throws error, t')
        | (Promise (Rejected error), t') \<Rightarrow>
            (Promise (if \<not> throwOnError t' then Resolved JNull else Rejected error), t')
        | (result, t') \<Rightarrow> (result, t')))"

text \<open>\<open>view.prop(...args)\<close> on a view, and \<open>instance.prop(...args)\<close> on an instance that is not
  wrapped.\<close>

definition view_call :: "'d view \<Rightarrow> string \<Rightarrow> 'd service_method \<Rightarrow> jsval list \<Rightarrow> outcome \<times> 'd view" where
  "view_call v prop original args =
     (case intercepted prop original (target v) args of (result, t') \<Rightarrow> (result, Proxy t'))"

definition direct_call :: "'d service \<Rightarrow> 'd service_method \<Rightarrow> jsval list \<Rightarrow> outcome \<times> 'd service" where
  "direct_call this original args = original this args"

section \<open>The validation engine\<close>

text \<open>The equations that evaluate a property read on a concrete plain object.\<close>

lemmas js_eval =
  js_lookup_def prototype_members_def Object_prototype_def builtin_methods_def

lemma call_messages_append: "call_messages (xs @ ys) = call_messages xs @ call_messages ys"
  by (simp add: call_messages_def)

lemma rule_calls_Cons:
  "rule_calls input f v (r # rs) = rule_calls input f v [r] @ rule_calls input f v rs"
  by (simp add: rule_calls_def)

lemma validate_rule_step:
  "validate_rule input f v st r =
     (\<lparr>messages = messages (fst st) @ call_messages (rule_calls input f v [r])\<rparr>,
      snd st @ rule_calls input f v [r])"
  by (cases st) (simp add: validate_rule_def rule_calls_def call_messages_def Let_def
      split: option.splits)

lemma foldl_validate_rule:
  "foldl (validate_rule input f v) st rs =
     (\<lparr>messages = messages (fst st) @ call_messages (rule_calls input f v rs)\<rparr>,
      snd st @ rule_calls input f v rs)"
proof (induction rs arbitrary: st)
  case Nil
  then show ?case by (cases st) (simp add: rule_calls_def call_messages_def)
next
  case (Cons r rs)
  have "foldl (validate_rule input f v) st (r # rs) =
        foldl (validate_rule input f v) (validate_rule input f v st r) rs" by simp
  also have "\<dots> = (\<lparr>messages = messages (fst st) @ call_messages (rule_calls input f v (r # rs))\<rparr>,
      snd st @ rule_calls input f v (r # rs))"
    unfolding Cons.IH rule_calls_Cons [of input f v r rs]
    by (simp add: validate_rule_step call_messages_append)
  finally show ?case .
qed

lemma validate_fields_run:
  assumes "validate_fields input rules st = Inr st'"
  shows "st' = (\<lparr>messages = messages (fst st) @ call_messages (all_calls input rules)\<rparr>,
                snd st @ all_calls input rules)"
  using assms
proof (induction rules arbitrary: st)
  case Nil
  then show ?case by (cases st) (auto simp: all_calls_def call_messages_def)
next
  case (Cons p rules)
  obtain f frs where p: "p = (f, frs)" by (cases p)
  from Cons.prems p obtain v where v: "js_get input f = Inr v"
    and rest: "validate_fields input rules (foldl (validate_rule input f v) st (ruleArray frs)) = Inr st'"
    by (auto split: sum.splits)
  from v have v': "v = prop_or_undefined input f"
    by (auto simp: js_get_def prop_or_undefined_def split: if_splits)
  show ?case
    using Cons.IH [OF rest]
    by (simp add: p v' foldl_validate_rule all_calls_def call_messages_append)
qed

lemma validate_fields_object:
  assumes "input \<noteq> JUndefined" "input \<noteq> JNull"
  shows "\<exists>st'. validate_fields input rules st = Inr st'"
proof (induction rules arbitrary: st)
  case Nil
  then show ?case by simp
next
  case (Cons p rules)
  obtain f frs where p: "p = (f, frs)" by (cases p)
  show ?case unfolding p using Cons.IH assms by (simp add: js_get_def)
qed

lemma validate_traced_object:
  assumes "input \<noteq> JUndefined" "input \<noteq> JNull"
  shows "validate_traced input rules =
     Inr (\<lparr>messages = call_messages (all_calls input rules)\<rparr>, all_calls input rules)"
proof -
  obtain st' where st': "validate_fields input rules (new_Validation, []) = Inr st'"
    using validate_fields_object [OF assms] by blast
  from validate_fields_run [OF st'] st' show ?thesis
    by (simp add: validate_traced_def new_Validation_def)
qed

text \<open>
  Claim C1, as stated, fails. With the rules \<open>[required('A'), array('B')]\<close> on a field missing
  from the input, the first rule returns the non-empty message \<open>A\<close>, and still the second rule
  is called and the field contributes both messages.
\<close>

theorem validate_short_circuit_counterexample:
  "call_rule (required ''A'') (prop_or_undefined (JObj []) ''f'') (JObj []) = Some ''A''
   \<and> validate_traced (JObj []) [(''f'', Many [required ''A'', array ''B''])] =
       Inr (\<lparr>messages = [\<lparr>code = ''ERR_UNKNOWN'', message = ''A'', field = None\<rparr>,
                          \<lparr>code = ''ERR_UNKNOWN'', message = ''B'', field = None\<rparr>]\<rparr>,
            [(''f'', Some ''A''), (''f'', Some ''B'')])"
  by (simp add: validate_traced_def validate_rule_def call_rule_def required_def array_def
      plain_rule_def to_string_def prop_or_undefined_def js_get_def js_eval new_Validation_def
      ERR_UNKNOWN_def)

text \<open>
  Claim C1, amended: on every input other than \<open>null\<close> and \<open>undefined\<close>, \<open>validate\<close> returns,
  having called every function-valued rule of every field in declaration order whatever the
  earlier rules returned, and the result holds every non-empty message returned, in that order.
\<close>

theorem validate_evaluates_every_rule:
  assumes "input \<noteq> JUndefined" and "input \<noteq> JNull"
  shows "validate_traced input rules =
           Inr (\<lparr>messages = call_messages (all_calls input rules)\<rparr>, all_calls input rules)"
  using assms by (rule validate_traced_object)

theorem validate_evaluates_every_rule_witness:
  "JObj [(''f'', JStr ''x'')] \<noteq> JUndefined \<and> JObj [(''f'', JStr ''x'')] \<noteq> JNull
   \<and> validate_traced (JObj [(''f'', JStr ''x'')])
        [(''f'', Many [array ''A'', required ''B'', array ''C''])] =
       Inr (\<lparr>messages = [\<lparr>code = ''ERR_UNKNOWN'', message = ''A'', field = None\<rparr>,
                          \<lparr>code = ''ERR_UNKNOWN'', message = ''C'', field = None\<rparr>]\<rparr>,
            [(''f'', Some ''A''), (''f'', None), (''f'', Some ''C'')])"
  using validate_evaluates_every_rule
    [of "JObj [(''f'', JStr ''x'')]" "[(''f'', Many [array ''A'', required ''B'', array ''C''])]"]
  by (simp add: all_calls_def rule_calls_def call_messages_def call_rule_def required_def
      array_def plain_rule_def to_string_def prop_or_undefined_def js_eval ERR_UNKNOWN_def)














section \<open>Sanitising\<close>
















section \<open>Extending a schema\<close>






section \<open>The error handler registry\<close>

lemma registry_handle_declined:
  "\<forall>h \<in> set pre. canHandle h error = Inr False \<Longrightarrow>
     registry_handle (pre @ rest) error req res = registry_handle rest error req res"
  by (induction pre) simp_all

lemma registry_handle_match:
  "canHandle h error = Inr True \<Longrightarrow> handle h error req res = Inr res' \<Longrightarrow>
     registry_handle (h # rest) error req res = Inr (True, res')"
  by simp

lemma registry_handle_first_match:
  assumes "\<forall>h \<in> set pre. canHandle h error = Inr False"
    and "canHandle h error = Inr True"
    and "handle h error req res = Inr res'"
  shows "registry_handle (pre @ h # rest) error req res = Inr (True, res')"
  using assms by (simp add: registry_handle_declined)

lemma registry_handle_false_iff:
  "(\<exists>res'. registry_handle reg error req res = Inr (False, res'))
     = (\<forall>h \<in> set reg. canHandle h error = Inr False)"
proof (induction reg)
  case Nil
  then show ?case by simp
next
  case (Cons h reg)
  show ?case
  proof (cases "canHandle h error")
    case (Inl t)
    then show ?thesis by simp
  next
    case (Inr b)
    show ?thesis
    proof (cases b)
      case True
      with Inr show ?thesis by (simp split: sum.splits)
    next
      case False
      with Inr Cons.IH show ?thesis by simp
    qed
  qed
qed

lemma registry_handle_false_same:
  "registry_handle reg error req res = Inr (False, res') \<Longrightarrow> res' = res"
proof (induction reg)
  case Nil
  then show ?case by simp
next
  case (Cons h reg)
  then show ?case by (auto split: sum.splits bool.splits if_splits)
qed

lemma generic_handler_last:
  "registry_handle (pre @ generic_handler # rest) error req res =
     registry_handle (pre @ [generic_handler]) error req res"
proof (induction pre)
  case Nil
  show ?case by (simp add: generic_handler_def Let_def)
next
  case (Cons h pre)
  then show ?case by (simp split: sum.splits bool.splits)
qed

lemma custom_handlers_unreachable:
  "registry_handle (reg @ defaultHandlers @ custom) error req res =
     registry_handle (reg @ defaultHandlers) error req res"
proof -
  let ?pre = "reg @ [validation_handler, app_exception_handler, json_parse_handler]"
  have "registry_handle (?pre @ generic_handler # custom) error req res =
        registry_handle (?pre @ [generic_handler]) error req res"
    by (rule generic_handler_last)
  then show ?thesis by (simp add: defaultHandlers_def)
qed

lemma default_handlers_validation:
  "registry_handle (defaultHandlers @ rest) (EValidation v) req res =
     Inr (True, AppResponse res 400 False JNull (JStr validation_error_msg) (messages_json v))"
  by (simp add: defaultHandlers_def validation_handler_def)

lemma default_handlers_total:
  assumes "error \<noteq> EOther JNull" and "error \<noteq> EOther JUndefined"
  shows "\<exists>res'. registry_handle defaultHandlers error req res = Inr (True, res')"
proof (cases error)
  case (EValidation v)
  then show ?thesis using default_handlers_validation [of "[]"] by simp
next
  case (EAppException m c)
  then show ?thesis
    by (simp add: defaultHandlers_def validation_handler_def app_exception_handler_def)
next
  case (ETypeError m)
  then show ?thesis
    by (simp add: defaultHandlers_def validation_handler_def app_exception_handler_def
        json_parse_handler_def generic_handler_def Let_def)
next
  case (EOther x)
  with assms have x: "x \<noteq> JNull" "x \<noteq> JUndefined" by auto
  then obtain y where y: "js_get x ''type'' = Inr y" by (simp add: js_get_def)
  from x obtain m where m: "js_get x ''message'' = Inr m" by (simp add: js_get_def)
  show ?thesis
    by (cases "y = JStr ''entity.parse.failed''")
       (simp_all add: EOther y m defaultHandlers_def validation_handler_def
          app_exception_handler_def json_parse_handler_def generic_handler_def Let_def)
qed

lemma createErrorMiddleware_registry:
  "useDefaultHandlers config \<noteq> Some False \<Longrightarrow>
     snd (createErrorMiddleware config reg) =
       reg @ defaultHandlers @ (case customHandlers config of Some hs \<Rightarrow> hs | None \<Rightarrow> [])"
  by (cases "useDefaultHandlers config")
     (auto simp: createErrorMiddleware_def registerMany_def Let_def split: option.splits)

text \<open>
  Claim C4, as stated, fails on the payload: for the schema \<open>{name: [required('Nome')]}\<close>
  checked against \<open>{}\<close>, the response has status 400, and its \<open>error\<close> is the array of
  message objects \<open>[{code, message, field: null}]\<close>, not the mapping \<open>{name: 'Nome'}\<close>.
\<close>

theorem validation_response_counterexample:
  "request_pipeline False (snd (createErrorMiddleware
       \<lparr>useDefaultHandlers = None, customHandlers = None, exposeStackTrace = None\<rparr> []))
     (\<lambda>req res. case check [(''name'', Many [required ''Nome''])] (JObj []) of
                    Inl e \<Rightarrow> (Threw e, res)
                  | Inr u \<Rightarrow> (Returned (Value JUndefined), res))
     (JObj []) new_response =
   Inr \<lparr>statusCode = 400, headersSent = True,
        body = Some (JObj [(''success'', JBool False),
                           (''message'', JStr validation_error_msg),
                           (''data'', JNull),
                           (''error'', JArr [JObj [(''code'', JStr ''ERR_UNKNOWN''),
                                                   (''message'', JStr ''Nome''),
                                                   (''field'', JNull)]])])\<rparr>"
  by (simp add: request_pipeline_def wrappedHandler_def error_middleware_def
      createErrorMiddleware_def registerMany_def defaultHandlers_def validation_handler_def
      AppResponse_def res_json_def res_status_def envelope_def messages_json_def
      message_json_def new_response_def check_def validate_def validate_traced_def
      validate_rule_def call_rule_def required_def plain_rule_def to_string_def js_get_def
      js_eval new_Validation_def isValid_def ERR_UNKNOWN_def)

text \<open>
  Claim C4, amended: when a route handler lets the \<open>Validation\<close> raised by \<open>check\<close> escape and
  the error middleware was created with default handlers enabled on a registry none of whose
  earlier handlers takes the error, the response has status 400 and the envelope
  \<open>{success: false, message: 'Erro de valida\<dots>o', data: null, error}\<close> whose \<open>error\<close> is the
  array of the validation's message objects, in order.
\<close>

theorem validation_response:
  assumes "check rules input = Inl (EValidation v)"
    and "handler req res = (Threw (EValidation v), res')"
    and "useDefaultHandlers config \<noteq> Some False"
    and "\<forall>h \<in> set reg. canHandle h (EValidation v) = Inr False"
  shows "request_pipeline (fst (createErrorMiddleware config reg))
           (snd (createErrorMiddleware config reg)) handler req res =
         Inr (res'\<lparr>statusCode := 400,
                   body := Some (envelope False (JStr validation_error_msg) JNull (messages_json v)),
                   headersSent := True\<rparr>)"
proof -
  have "registry_handle (snd (createErrorMiddleware config reg)) (EValidation v) req res' =
        registry_handle (defaultHandlers @ (case customHandlers config of Some hs \<Rightarrow> hs | None \<Rightarrow> []))
          (EValidation v) req res'"
    unfolding createErrorMiddleware_registry [OF assms(3)]
    by (rule registry_handle_declined [OF assms(4)])
  then have "registry_handle (snd (createErrorMiddleware config reg)) (EValidation v) req res' =
      Inr (True, AppResponse res' 400 False JNull (JStr validation_error_msg) (messages_json v))"
    by (simp only: default_handlers_validation)
  with assms(2) show ?thesis
    by (simp add: request_pipeline_def wrappedHandler_def error_middleware_def AppResponse_def
        res_json_def res_status_def)
qed

theorem validation_response_witness:
  "request_pipeline False (defaultHandlers @ [generic_handler])
     (\<lambda>req res. case check [(''name'', Many [required ''Nome''])] req of
                    Inl e \<Rightarrow> (Threw e, res)
                  | Inr u \<Rightarrow> (Returned (Value JUndefined), res))
     (JObj [(''name'', JStr [])]) new_response =
   Inr (new_response\<lparr>statusCode := 400,
          body := Some (envelope False (JStr validation_error_msg) JNull
                   (messages_json \<lparr>messages = [\<lparr>code = ''ERR_UNKNOWN'', message = ''Nome'', field = None\<rparr>]\<rparr>)),
          headersSent := True\<rparr>)"
proof -
  let ?rules = "[(''name'', Many [required ''Nome''])]"
  let ?v = "\<lparr>messages = [\<lparr>code = ''ERR_UNKNOWN'', message = ''Nome'', field = None\<rparr>]\<rparr>"
  let ?handler = "\<lambda>req res. case check ?rules req of
                    Inl e \<Rightarrow> (Threw e, res)
                  | Inr u \<Rightarrow> (Returned (Value JUndefined), res :: response)"
  let ?config = "\<lparr>useDefaultHandlers = Some True, customHandlers = Some [generic_handler],
                   exposeStackTrace = None\<rparr>"
  have c: "check ?rules (JObj [(''name'', JStr [])]) = Inl (EValidation ?v)"
    by (simp add: check_def validate_def validate_traced_def validate_rule_def call_rule_def
        required_def plain_rule_def to_string_def js_get_def js_eval new_Validation_def
        isValid_def ERR_UNKNOWN_def)
  then have h: "?handler (JObj [(''name'', JStr [])]) new_response = (Threw (EValidation ?v), new_response)"
    by simp
  have u: "useDefaultHandlers ?config \<noteq> Some False" by simp
  have r: "\<forall>h \<in> set []. canHandle h (EValidation ?v) = Inr False" by simp
  have m: "createErrorMiddleware ?config [] = (False, defaultHandlers @ [generic_handler])"
    by (simp add: createErrorMiddleware_def registerMany_def)
  from validation_response
         [of ?rules "JObj [(''name'', JStr [])]" ?v ?handler "JObj [(''name'', JStr [])]"
             new_response new_response ?config "[]", OF c h u r]
  show ?thesis
    unfolding m by simp
qed

text \<open>
  Claim C5 at a failing input. The middleware is created on an empty registry with default
  handlers enabled and one project handler that takes every \<open>Validation\<close> and answers 422.
  The registry then holds the default handlers first and the project handler last, and a
  \<open>Validation\<close> is answered by the default handler with 400: the project handler is not
  invoked.
\<close>

theorem custom_handler_shadowed:
  "createErrorMiddleware
     \<lparr>useDefaultHandlers = Some True,
      customHandlers = Some [\<lparr>canHandle = (\<lambda>error. Inr (case error of EValidation v \<Rightarrow> True | _ \<Rightarrow> False)),
                              handle = (\<lambda>error req res. Inr (AppResponse res 422 False JNull (JStr ''custom'') JNull))\<rparr>],
      exposeStackTrace = None\<rparr> []
   = (False,
      defaultHandlers @
      [\<lparr>canHandle = (\<lambda>error. Inr (case error of EValidation v \<Rightarrow> True | _ \<Rightarrow> False)),
        handle = (\<lambda>error req res. Inr (AppResponse res 422 False JNull (JStr ''custom'') JNull))\<rparr>])
   \<and> error_middleware False
        (defaultHandlers @
         [\<lparr>canHandle = (\<lambda>error. Inr (case error of EValidation v \<Rightarrow> True | _ \<Rightarrow> False)),
           handle = (\<lambda>error req res. Inr (AppResponse res 422 False JNull (JStr ''custom'') JNull))\<rparr>])
        (EValidation \<lparr>messages = [\<lparr>code = ''ERR_UNKNOWN'', message = ''Nome'', field = None\<rparr>]\<rparr>)
        (JObj []) new_response
     = Inr \<lparr>statusCode = 400, headersSent = True,
            body = Some (envelope False (JStr validation_error_msg) JNull
                     (messages_json \<lparr>messages = [\<lparr>code = ''ERR_UNKNOWN'', message = ''Nome'', field = None\<rparr>]\<rparr>))\<rparr>"
  by (simp add: createErrorMiddleware_def registerMany_def error_middleware_def
      default_handlers_validation AppResponse_def res_json_def res_status_def new_response_def)

text \<open>
  Claim C9 at a failing input. With exactly the default handlers registered, \<open>handle\<close> called
  on the error \<open>null\<close> does not return \<open>true\<close>: the third default handler's \<open>canHandle\<close> reads
  \<open>error.type\<close> and raises before the catch-all is reached. The same happens on \<open>undefined\<close>.
\<close>

theorem default_handlers_null_error:
  "registry_handle defaultHandlers (EOther JNull) (JObj []) new_response
     = Inl (ETypeError (cannot_read JNull ''type''))
   \<and> registry_handle defaultHandlers (EOther JUndefined) (JObj []) new_response
     = Inl (ETypeError (cannot_read JUndefined ''type''))"
  by (simp add: defaultHandlers_def validation_handler_def app_exception_handler_def
      json_parse_handler_def js_get_def)

section \<open>The dispatcher\<close>

text \<open>
  Claim C7, as stated, fails on the status of a plain value: a handler that sets the status
  to 201 without sending and returns \<open>{id: 1}\<close> is answered with the envelope at 201, not 200.
\<close>

theorem plain_value_status_counterexample:
  "wrappedHandler (\<lambda>req res. (Returned (Value (JObj [(''id'', JNum 1)])), res_status 201 res))
     (JObj []) new_response
   = (\<lparr>statusCode = 201, headersSent = True,
       body = Some (JObj [(''success'', JBool True), (''message'', JNull),
                          (''data'', JObj [(''id'', JNum 1)]), (''error'', JNull)])\<rparr>,
      None)"
  by (simp add: wrappedHandler_def res_status_def res_json_def envelope_def new_response_def)

text \<open>
  Claim C7, amended: when the handler completes without throwing and has not sent the headers,
  an \<open>ApiResponse\<close> is answered with the envelope
  \<open>{success: true, message: its non-empty message or null, data: its data, error: null}\<close> at its
  own status code, and any other value but \<open>undefined\<close> with
  \<open>{success: true, message: null, data: the value, error: null}\<close> at the status code the
  response carries at that moment, which is 200 when the handler was given a fresh response and
  left its status alone. Nothing is passed to \<open>next\<close>.
\<close>

theorem dispatcher_envelope:
  assumes "handler req res = (Returned result, res')" and "\<not> headersSent res'"
  shows "(\<forall>dat status msg. result = ApiResponse dat status msg \<longrightarrow>
            wrappedHandler handler req res =
              (res'\<lparr>statusCode := status,
                    body := Some (envelope True
                              (case msg of Some m \<Rightarrow> if m \<noteq> [] then JStr m else JNull
                               | None \<Rightarrow> JNull) dat JNull),
                    headersSent := True\<rparr>, None))
       \<and> (\<forall>v. result = Value v \<longrightarrow> v \<noteq> JUndefined \<longrightarrow>
            wrappedHandler handler req res =
              (res'\<lparr>body := Some (envelope True JNull v JNull), headersSent := True\<rparr>, None))
       \<and> (\<forall>v. result = Value v \<longrightarrow> v \<noteq> JUndefined \<longrightarrow> res = new_response \<longrightarrow>
            statusCode res' = statusCode res \<longrightarrow>
            statusCode (fst (wrappedHandler handler req res)) = 200)"
  using assms
  by (auto simp: wrappedHandler_def res_json_def res_status_def new_response_def)

theorem dispatcher_envelope_witness:
  "wrappedHandler (\<lambda>req res. (Returned (Value (JObj [(''pong'', JBool True)])), res))
     (JObj []) new_response
   = (\<lparr>statusCode = 200, headersSent = True,
       body = Some (JObj [(''success'', JBool True), (''message'', JNull),
                          (''data'', JObj [(''pong'', JBool True)]), (''error'', JNull)])\<rparr>, None)
   \<and> wrappedHandler (\<lambda>req res. (Returned (created (JObj [(''id'', JNum 7)]) None), res))
     (JObj []) new_response
   = (\<lparr>statusCode = 201, headersSent = True,
       body = Some (JObj [(''success'', JBool True), (''message'', JNull),
                          (''data'', JObj [(''id'', JNum 7)]), (''error'', JNull)])\<rparr>, None)"
  using dispatcher_envelope
          [of "\<lambda>req res. (Returned (Value (JObj [(''pong'', JBool True)])), res)"
              "JObj []" new_response "Value (JObj [(''pong'', JBool True)])" new_response]
        dispatcher_envelope
          [of "\<lambda>req res. (Returned (created (JObj [(''id'', JNum 7)]) None), res)"
              "JObj []" new_response "created (JObj [(''id'', JNum 7)]) None" new_response]
  by (simp add: new_response_def envelope_def created_def)

text \<open>
  Claim C10: when the handler completes returning \<open>undefined\<close> and has not sent the headers,
  the wrapper leaves the response as the handler left it, unsent, and passes nothing to
  \<open>next\<close>; so the pipeline ends with the request unanswered and the error middleware is not
  entered.
\<close>

theorem undefined_result_unanswered:
  assumes "handler req res = (Returned (Value JUndefined), res')" and "\<not> headersSent res'"
  shows "wrappedHandler handler req res = (res', None)
       \<and> request_pipeline expose reg handler req res = Inr res'"
  using assms by (simp add: wrappedHandler_def request_pipeline_def)

theorem undefined_result_unanswered_witness:
  "wrappedHandler (\<lambda>req res. (Returned (Value JUndefined), res)) (JObj []) new_response
     = (new_response, None)
   \<and> request_pipeline False defaultHandlers (\<lambda>req res. (Returned (Value JUndefined), res))
       (JObj []) new_response = Inr new_response
   \<and> headersSent new_response = False \<and> body new_response = None"
  using undefined_result_unanswered
          [of "\<lambda>req res. (Returned (Value JUndefined), res)" "JObj []" new_response new_response
              False defaultHandlers]
  by (simp add: new_response_def)

section \<open>Service views\<close>

lemma silent_target:
  "target (silent this) = this\<lparr>throwOnError := False\<rparr>"
  by (simp add: silent_def createProxy_def)

text \<open>
  Claim C6, as stated, fails for a method that switches \<open>throwOnError\<close> back on before it
  throws: the wrapper reads the flag of the target when it catches the error, so on a view made
  by \<open>silent()\<close> the error of such a method propagates.
\<close>

theorem silent_view_counterexample:
  "view_call (silent (new_service ())) ''risky''
     (\<lambda>this args. (Throws (EOther (JStr ''boom'')), this\<lparr>throwOnError := True\<rparr>)) []
   = (Throws (EOther (JStr ''boom'')),
      Proxy \<lparr>throwOnError = True, transaction = JUndefined, svc_context = [], own = ()\<rparr>)"
  by (simp add: view_call_def intercepted_def silent_target new_service_def)

text \<open>
  Claim C6, amended: \<open>silent()\<close> yields a view whose target has \<open>throwOnError\<close> false and is
  otherwise a copy of the instance. For a method whose name does not start with an underscore,
  called on that view: if it throws and the target's \<open>throwOnError\<close> is still false when the
  error is caught, the call returns \<open>null\<close>; if its promise rejects, the call returns a promise
  that resolves to \<open>null\<close>. On any view whose target has \<open>throwOnError\<close> true at that moment the
  error, thrown or rejected, propagates unchanged. A call on the instance itself is not
  intercepted: a method that throws there still throws.
\<close>

theorem silent_view_swallows:
  assumes "\<not> is_internal prop"
  shows "target (silent this) = this\<lparr>throwOnError := False\<rparr>
     \<and> (\<forall>e t'. original (target (silent this)) args = (Throws e, t') \<longrightarrow> \<not> throwOnError t' \<longrightarrow>
           view_call (silent this) prop original args = (Returns JNull, Proxy t'))
     \<and> (\<forall>e t'. original (target (silent this)) args = (Promise (Rejected e), t') \<longrightarrow>
           \<not> throwOnError t' \<longrightarrow>
           view_call (silent this) prop original args = (Promise (Resolved JNull), Proxy t'))
     \<and> (\<forall>v e t'. original (target v) args = (Throws e, t') \<longrightarrow> throwOnError t' \<longrightarrow>
           view_call v prop original args = (Throws e, Proxy t'))
     \<and> (\<forall>v e t'. original (target v) args = (Promise (Rejected e), t') \<longrightarrow> throwOnError t' \<longrightarrow>
           view_call v prop original args = (Promise (Rejected e), Proxy t'))
     \<and> (\<forall>e s'. original this args = (Throws e, s') \<longrightarrow>
           direct_call this original args = (Throws e, s'))"
  using assms
  by (simp add: silent_target view_call_def intercepted_def direct_call_def)

theorem silent_view_swallows_witness:
  "view_call (silent (new_service ())) ''find''
     (\<lambda>this args. (Throws (EAppException ''Not found'' 404), this)) []
   = (Returns JNull,
      Proxy \<lparr>throwOnError = False, transaction = JUndefined, svc_context = [], own = ()\<rparr>)
   \<and> view_call (silent (new_service ())) ''find''
     (\<lambda>this args. (Promise (Rejected (EAppException ''Not found'' 404)), this)) []
   = (Promise (Resolved JNull),
      Proxy \<lparr>throwOnError = False, transaction = JUndefined, svc_context = [], own = ()\<rparr>)
   \<and> view_call (withTransaction (JObj []) (new_service ())) ''find''
     (\<lambda>this args. (Throws (EAppException ''Not found'' 404), this)) []
   = (Throws (EAppException ''Not found'' 404),
      Proxy \<lparr>throwOnError = True, transaction = JObj [], svc_context = [], own = ()\<rparr>)
   \<and> direct_call (new_service ()) (\<lambda>this args. (Throws (EAppException ''Not found'' 404), this)) []
   = (Throws (EAppException ''Not found'' 404), new_service ())"
  using silent_view_swallows
          [of "''find''" "new_service ()"
              "\<lambda>this args. (Throws (EAppException ''Not found'' 404), this)" "[]"]
        silent_view_swallows
          [of "''find''" "new_service ()"
              "\<lambda>this args. (Promise (Rejected (EAppException ''Not found'' 404)), this)" "[]"]
  by (simp add: new_service_def withTransaction_def silent_def createProxy_def)

section \<open>The one rule that stops at the first failure\<close>

text \<open>Inside \<open>optionalBut\<close> the wrapped rules are tried in order and the first truthy result is
  returned, the later rules not being called; an empty or blank value passes whatever the
  wrapped rules are.\<close>

lemma first_error_stops:
  "str_truthy (call_rule r v input) \<Longrightarrow> first_error (r # rs) v input = call_rule r v input"
  by (simp add: Let_def)

lemma first_error_skips:
  "\<not> str_truthy (call_rule r v input) \<Longrightarrow> first_error (r # rs) v input = first_error rs v input"
  by (simp add: Let_def)

lemma blank_Nil: "blank []"
  by (simp add: blank.simps)

lemma white_space_length_space: "is_space a \<Longrightarrow> white_space_length (a # s) = 1"
  by (cases s rule: white_space_length.cases) simp_all

lemma blank_spaces: "\<forall>c \<in> set s. is_space c \<Longrightarrow> blank s"
proof (induction s)
  case Nil
  show ?case by (rule blank_Nil)
next
  case (Cons a s)
  then have "white_space_length (a # s) = 1" by (simp add: white_space_length_space)
  moreover from Cons have "blank s" by simp
  ultimately show ?case by (simp add: blank.simps [of "a # s"])
qed

lemma blank_no_break_space: "blank [CHR 0xC2, CHR 0xA0]"
  by (simp add: blank.simps [of "[CHR 0xC2, CHR 0xA0]"] blank_Nil is_space_def)

lemma optionalBut_blank:
  "v = JUndefined \<or> v = JNull \<or> (\<exists>s. v = JStr s \<and> blank s) \<Longrightarrow>
     call_rule (optionalBut rules) v input = None"
  by (auto simp: call_rule_def optionalBut_def plain_rule_def Let_def)

lemma optionalBut_delegates:
  "\<not> (v = JUndefined \<or> v = JNull \<or> (\<exists>s. v = JStr s \<and> blank s)) \<Longrightarrow>
     call_rule (optionalBut rules) v input = first_error rules v JUndefined"
  by (cases v) (auto simp: call_rule_def optionalBut_def plain_rule_def Let_def blank_Nil)

end
